theory Spec2Isabelle
  imports Complex_Main "HOL-Library.AList"
begin

section \<open>Values of the upstream document\<close>

text \<open>
  The poller works on what \<^verbatim>\<open>r.json()\<close> returns: Python values built from \<^verbatim>\<open>None\<close>,
  booleans, integers, floats, strings, lists and dictionaries. A dictionary is kept as the
  list of its items in insertion order (a Python dictionary has each key once; lookups
  read the first item of a key). Floats are passed through and tested for zero only; they
  are carried as reals, so the values \<^verbatim>\<open>nan\<close> and \<^verbatim>\<open>inf\<close> have no counterpart here.
\<close>

datatype json =
    JNull
  | JBool bool
  | JInt int
  | JFloat real
  | JStr string
  | JList "json list"
  | JDict "(string \<times> json) list"

text \<open>Python's truth value of an object, as used by \<^verbatim>\<open>not x\<close>, \<^verbatim>\<open>x or y\<close> and \<^verbatim>\<open>bool(x)\<close>.\<close>

fun truthy :: "json \<Rightarrow> bool" where
  "truthy JNull = False"
| "truthy (JBool b) = b"
| "truthy (JInt n) = (n \<noteq> 0)"
| "truthy (JFloat r) = (r \<noteq> 0)"
| "truthy (JStr s) = (s \<noteq> [])"
| "truthy (JList xs) = (xs \<noteq> [])"
| "truthy (JDict kvs) = (kvs \<noteq> [])"

definition py_or :: "json \<Rightarrow> json \<Rightarrow> json" where
  "py_or x y = (if truthy x then x else y)"

fun type_name :: "json \<Rightarrow> string" where
  "type_name JNull = ''NoneType''"
| "type_name (JBool b) = ''bool''"
| "type_name (JInt n) = ''int''"
| "type_name (JFloat r) = ''float''"
| "type_name (JStr s) = ''str''"
| "type_name (JList xs) = ''list''"
| "type_name (JDict kvs) = ''dict''"

subsection \<open>Exceptions\<close>

text \<open>
  An exception is its class and the text \<^verbatim>\<open>str(e)\<close> gives. \<open>HTTPError\<close> stands for
  \<^verbatim>\<open>httpx.HTTPError\<close> and its subclasses (transport errors, timeouts, status errors);
  every class below derives from \<^verbatim>\<open>Exception\<close>.
\<close>

datatype exc_class = HTTPError | AttributeError | TypeError | ValueError | OtherException

datatype exc = Exc exc_class string

fun exc_str :: "exc \<Rightarrow> string" where
  "exc_str (Exc c m) = m"

fun is_http_error :: "exc \<Rightarrow> bool" where
  "is_http_error (Exc c m) = (c = HTTPError)"

definition exc_bind :: "exc + 'a \<Rightarrow> ('a \<Rightarrow> exc + 'b) \<Rightarrow> exc + 'b" where
  "exc_bind r f = (case r of Inl e \<Rightarrow> Inl e | Inr x \<Rightarrow> f x)"

definition quoted :: "string \<Rightarrow> string" where
  "quoted s = CHR 0x27 # s @ [CHR 0x27]"

definition no_attribute :: "json \<Rightarrow> string \<Rightarrow> exc" where
  "no_attribute v a =
     Exc AttributeError (quoted (type_name v) @ '' object has no attribute '' @ quoted a)"

subsection \<open>Dictionary operations\<close>

definition dict_get :: "(string \<times> json) list \<Rightarrow> string \<Rightarrow> json" where
  "dict_get kvs k = (case map_of kvs k of None \<Rightarrow> JNull | Some v \<Rightarrow> v)"

text \<open>\<^verbatim>\<open>x.get(k)\<close>: only a dictionary has the method.\<close>

fun py_get :: "json \<Rightarrow> string \<Rightarrow> exc + json" where
  "py_get (JDict kvs) k = Inr (dict_get kvs k)"
| "py_get v k = Inl (no_attribute v ''get'')"

text \<open>\<^verbatim>\<open>x.values()\<close>\<close>

fun py_values :: "json \<Rightarrow> exc + json list" where
  "py_values (JDict kvs) = Inr (map snd kvs)"
| "py_values v = Inl (no_attribute v ''values'')"

fun is_dict :: "json \<Rightarrow> bool" where
  "is_dict (JDict kvs) = True"
| "is_dict v = False"

text \<open>\<^verbatim>\<open>k in x\<close> for a value already known to be a dictionary.\<close>

fun has_key :: "json \<Rightarrow> string \<Rightarrow> bool" where
  "has_key (JDict kvs) k = (map_of kvs k \<noteq> None)"
| "has_key v k = False"

section \<open>The normalizer\<close>

text \<open>The canonical device record that \<^verbatim>\<open>normalize_node\<close> returns.\<close>

record device =
  sn :: json
  nickname :: json
  online :: bool
  lat :: json
  lng :: json
  alt_m :: json
  heading_deg :: json
  battery_pct :: json
  flight_state :: json
  updated_at :: string

text \<open>
  What the program takes from outside: the rendering
  \<^verbatim>\<open>datetime.fromtimestamp(ms / 1000.0, tz=timezone.utc).isoformat()\<close> of a timestamp (float
  arithmetic and the calendar are the library's; it raises on a value that is no number
  or out of range), and the value of the environment variable \<^verbatim>\<open>POLL_SECONDS\<close>, if set.
\<close>

record world =
  fromtimestamp_iso :: "json \<Rightarrow> exc + string"
  env_POLL_SECONDS :: "real option"

definition ms_to_iso :: "world \<Rightarrow> json \<Rightarrow> exc + string option" where
  "ms_to_iso w ms =
     (if \<not> truthy ms then Inr None
      else case fromtimestamp_iso w ms of Inl e \<Rightarrow> Inl e | Inr s \<Rightarrow> Inr (Some s))"

text \<open>\<^verbatim>\<open>ms_to_iso(...) or now_iso()\<close>, with \<open>now\<close> the clock reading \<^verbatim>\<open>now_iso()\<close> gives.\<close>

definition iso_or_now :: "string option \<Rightarrow> string \<Rightarrow> string" where
  "iso_or_now r now = (case r of None \<Rightarrow> now | Some s \<Rightarrow> if s \<noteq> [] then s else now)"

definition carries_position :: "json \<Rightarrow> bool" where
  "carries_position v \<longleftrightarrow> is_dict v \<and> has_key v ''latitude'' \<and> has_key v ''longitude''"

text \<open>Line 145: \<^verbatim>\<open>base\<close> is the device state itself when it has both keys, else \<^verbatim>\<open>None\<close>.\<close>

definition base_of :: "json \<Rightarrow> json" where
  "base_of ds = (if carries_position ds then ds else JNull)"

text \<open>
  Lines 146 to 149: the first value of the device state that is a dictionary with both
  keys, else an empty dictionary. \<^verbatim>\<open>ds.values()\<close> is evaluated whatever \<^verbatim>\<open>base\<close> is.
\<close>

definition module_of :: "json \<Rightarrow> exc + json" where
  "module_of ds =
     exc_bind (py_values ds) (\<lambda>vs.
       Inr (py_or (case find carries_position vs of Some v \<Rightarrow> v | None \<Rightarrow> JDict [])
                  (JDict [])))"

definition normalize_node :: "world \<Rightarrow> string \<Rightarrow> json \<Rightarrow> exc + device option" where
  "normalize_node w now node =
     exc_bind (py_get node ''host'') (\<lambda>h.
     let host = py_or h (JDict []) in
     exc_bind (py_get host ''device_sn'') (\<lambda>sn_v.
     if \<not> truthy sn_v then Inr None
     else
     exc_bind (py_get host ''device_online_status'') (\<lambda>status.
     let online_v = truthy status in
     exc_bind (py_get host ''device_project_callsign'') (\<lambda>callsign.
     let nickname_v = py_or callsign sn_v in
     exc_bind (py_get host ''device_state'') (\<lambda>d.
     let ds = py_or d (JDict []);
         base = base_of ds in
     exc_bind (module_of ds) (\<lambda>module.
     exc_bind (py_get (py_or base module) ''latitude'') (\<lambda>lat0.
     exc_bind (py_get (py_or base module) ''longitude'') (\<lambda>lng0.
     exc_bind (py_get host ''device_offline_position'') (\<lambda>p.
     let offline_pos = py_or p (JDict []) in
     exc_bind (if lat0 = JNull \<or> lng0 = JNull
               then exc_bind (py_get offline_pos ''latitude'') (\<lambda>lat1.
                    exc_bind (py_get offline_pos ''longitude'') (\<lambda>lng1.
                    Inr (lat1, lng1)))
               else Inr (lat0, lng0)) (\<lambda>(lat_v, lng_v).
     exc_bind (py_get (py_or base module) ''height'') (\<lambda>alt_v.
     exc_bind (py_get (py_or base module) ''attitude_head'') (\<lambda>head0.
     exc_bind (if truthy head0 then Inr head0
               else py_get (py_or base module) ''heading'') (\<lambda>heading_v.
     exc_bind (py_get (py_or base module) ''battery'') (\<lambda>b.
     let batt = py_or b (JDict []) in
     exc_bind (if is_dict batt then py_get batt ''capacity_percent''
               else Inr JNull) (\<lambda>battery_v.
     exc_bind (py_get (py_or base module) ''mode_code'') (\<lambda>flight_v.
     exc_bind (py_get offline_pos ''timestamp'') (\<lambda>ts.
     exc_bind (ms_to_iso w ts) (\<lambda>iso.
     Inr (Some \<lparr> sn = sn_v, nickname = nickname_v, online = online_v,
                  lat = lat_v, lng = lng_v, alt_m = alt_v, heading_deg = heading_v,
                  battery_pct = battery_v, flight_state = flight_v,
                  updated_at = iso_or_now iso now \<rparr>)))))))))))))))))))"

section \<open>Fetching and extracting the batch\<close>

text \<open>
  What \<^verbatim>\<open>client.get\<close> hands back: the status code, the text of the
  \<^verbatim>\<open>HTTPStatusError\<close> that \<^verbatim>\<open>raise_for_status()\<close> raises for it, and what \<^verbatim>\<open>r.json()\<close>
  returns or raises. \<^verbatim>\<open>raise_for_status()\<close> raises unless the status is 2xx.
\<close>

record http_response =
  status_code :: nat
  status_error_text :: string
  json_result :: "exc + json"

definition fetch_timeout :: real where
  "fetch_timeout = 10.0"

definition raise_for_status :: "http_response \<Rightarrow> exc + unit" where
  "raise_for_status r =
     (if 200 \<le> status_code r \<and> status_code r < 300 then Inr ()
      else Inl (Exc HTTPError (status_error_text r)))"

text \<open>The argument is the outcome of \<^verbatim>\<open>client.get(url, headers=HEADERS, timeout=10.0)\<close>.\<close>

definition fetch_topologies :: "exc + http_response \<Rightarrow> exc + json" where
  "fetch_topologies got =
     exc_bind got (\<lambda>r.
     exc_bind (raise_for_status r) (\<lambda>_.
     json_result r))"

definition extract_nodes :: "json \<Rightarrow> exc + json list" where
  "extract_nodes payload =
     exc_bind (py_get payload ''data'') (\<lambda>d.
     let data = py_or d (JDict []) in
     exc_bind (py_get data ''list'') (\<lambda>l.
     let nodes = py_or l (JList []) in
     Inr (case nodes of JList xs \<Rightarrow> xs | _ \<Rightarrow> [])))"

section \<open>State table, subscriber registry and broadcast\<close>

text \<open>
  Keys of a Python dictionary: hashable values, equal when Python's \<^verbatim>\<open>==\<close> says so
  (\<^verbatim>\<open>True\<close>, \<^verbatim>\<open>1\<close> and \<^verbatim>\<open>1.0\<close> are one key). Lists and dictionaries are unhashable.
\<close>

datatype pykey = KNone | KNum real | KStr string

fun key_of :: "json \<Rightarrow> exc + pykey" where
  "key_of JNull = Inr KNone"
| "key_of (JBool b) = Inr (KNum (if b then 1 else 0))"
| "key_of (JInt n) = Inr (KNum (of_int n))"
| "key_of (JFloat r) = Inr (KNum r)"
| "key_of (JStr s) = Inr (KStr s)"
| "key_of v = Inl (Exc TypeError (''unhashable type: '' @ quoted (type_name v)))"


datatype message =
    Snapshot "device list"
  | TelemetryUpdate "device list"
  | ErrorMessage string

text \<open>
  The effects of the poller, in the order they happen: the fetch with the timeout
  argument it passes, each call of \<^verbatim>\<open>broadcast\<close>, each \<^verbatim>\<open>send_text\<close> with whether it went
  through, and the sleep with its argument. Events carry no durations.
\<close>

datatype 'h event =
    EvFetch real
  | EvBroadcast message
  | EvSend 'h message bool
  | EvSleep real

text \<open>
  \<open>latest_by_sn\<close> is the dictionary in insertion order, \<open>ws_clients\<close> the set of
  handles in the order \<^verbatim>\<open>list(ws_clients)\<close> lists them.
\<close>

record 'h poller_state =
  latest_by_sn :: "(pykey \<times> device) list"
  ws_clients :: "'h list"
  trace :: "'h event list"

text \<open>\<^verbatim>\<open>d.update(u)\<close>: each item of \<open>u\<close> in turn replaces the entry of its key or is appended.\<close>

definition dict_update :: "('k \<times> 'v) list \<Rightarrow> ('k \<times> 'v) list \<Rightarrow> ('k \<times> 'v) list" where
  "dict_update d u = fold (\<lambda>(k, v). AList.update k v) u d"

text \<open>The first loop of \<^verbatim>\<open>broadcast\<close>: \<open>ok ws\<close> tells whether \<^verbatim>\<open>ws.send_text(data)\<close> returns.\<close>

fun send_each ::
  "('h \<Rightarrow> bool) \<Rightarrow> message \<Rightarrow> 'h list \<Rightarrow> 'h list \<Rightarrow> 'h event list \<Rightarrow> 'h list \<times> 'h event list" where
  "send_each ok data [] dead tr = (dead, tr)"
| "send_each ok data (ws # rest) dead tr =
     (if ok ws then send_each ok data rest dead (tr @ [EvSend ws data True])
      else send_each ok data rest (dead @ [ws]) (tr @ [EvSend ws data False]))"

text \<open>The second loop: \<^verbatim>\<open>for ws in dead: ws_clients.discard(ws)\<close>.\<close>

fun discard_each :: "'h list \<Rightarrow> 'h list \<Rightarrow> 'h list" where
  "discard_each [] clients = clients"
| "discard_each (ws # dead) clients = discard_each dead (removeAll ws clients)"

definition broadcast :: "('h \<Rightarrow> bool) \<Rightarrow> message \<Rightarrow> 'h poller_state \<Rightarrow> 'h poller_state" where
  "broadcast ok msg s =
     (case send_each ok msg (ws_clients s) [] (trace s @ [EvBroadcast msg]) of
        (dead, tr) \<Rightarrow> s\<lparr> ws_clients := discard_each dead (ws_clients s), trace := tr \<rparr>)"

section \<open>The poller\<close>

definition POLL_SECONDS :: "world \<Rightarrow> real" where
  "POLL_SECONDS w = (case env_POLL_SECONDS w of None \<Rightarrow> 2.0 | Some v \<Rightarrow> v)"

text \<open>
  What one cycle meets: the outcome of the request, the clock reading for the \<open>i\<close>-th
  node of the batch, and which handles accept the one broadcast of the cycle.
\<close>

record 'h cycle_env =
  ce_response :: "exc + http_response"
  ce_clock :: "nat \<Rightarrow> string"
  ce_send_ok :: "'h \<Rightarrow> bool"

text \<open>The loop over the nodes, lines 217 to 222; \<open>i\<close> counts the nodes seen.\<close>

fun collect_updates ::
  "world \<Rightarrow> (nat \<Rightarrow> string) \<Rightarrow> nat \<Rightarrow> json list \<Rightarrow> (pykey \<times> device) list
     \<Rightarrow> exc + (pykey \<times> device) list" where
  "collect_updates w clock i [] updates = Inr updates"
| "collect_updates w clock i (node # nodes) updates =
     (case normalize_node w (clock i) node of
        Inl e \<Rightarrow> Inl e
      | Inr None \<Rightarrow> collect_updates w clock (Suc i) nodes updates
      | Inr (Some dev) \<Rightarrow>
          (case key_of (sn dev) of
             Inl e \<Rightarrow> Inl e
           | Inr k \<Rightarrow> collect_updates w clock (Suc i) nodes (AList.update k dev updates)))"

text \<open>
  The body of the \<^verbatim>\<open>try\<close>, lines 214 to 230: the exception raised, if any, and the state
  at that point.
\<close>

definition poll_try :: "world \<Rightarrow> 'h cycle_env \<Rightarrow> 'h poller_state \<Rightarrow> exc option \<times> 'h poller_state" where
  "poll_try w env s0 =
     (let s = s0\<lparr> trace := trace s0 @ [EvFetch fetch_timeout] \<rparr> in
      case fetch_topologies (ce_response env) of
        Inl e \<Rightarrow> (Some e, s)
      | Inr payload \<Rightarrow>
      (case extract_nodes payload of
        Inl e \<Rightarrow> (Some e, s)
      | Inr nodes \<Rightarrow>
      (case collect_updates w (ce_clock env) 0 nodes [] of
        Inl e \<Rightarrow> (Some e, s)
      | Inr updates \<Rightarrow>
          let s1 = s\<lparr> latest_by_sn := dict_update (latest_by_sn s) updates \<rparr> in
          (None, if updates \<noteq> []
                 then broadcast (ce_send_ok env) (TelemetryUpdate (map snd updates)) s1
                 else s1))))"

text \<open>The two handlers, lines 232 to 235.\<close>

definition error_report :: "exc \<Rightarrow> message" where
  "error_report e =
     (if is_http_error e then ErrorMessage (''HTTP error: '' @ exc_str e)
      else ErrorMessage (''Unexpected error: '' @ exc_str e))"

definition sleep :: "real \<Rightarrow> 'h poller_state \<Rightarrow> 'h poller_state" where
  "sleep t s = s\<lparr> trace := trace s @ [EvSleep t] \<rparr>"

text \<open>One pass through the body of \<^verbatim>\<open>while True\<close>.\<close>

definition poll_cycle :: "world \<Rightarrow> 'h cycle_env \<Rightarrow> 'h poller_state \<Rightarrow> 'h poller_state" where
  "poll_cycle w env s =
     (case poll_try w env s of
        (None, s') \<Rightarrow> sleep (POLL_SECONDS w) s'
      | (Some e, s') \<Rightarrow> sleep (POLL_SECONDS w) (broadcast (ce_send_ok env) (error_report e) s'))"

text \<open>
  \<^verbatim>\<open>poller_loop\<close> never leaves its \<^verbatim>\<open>while True\<close>; the list holds what the first cycles
  meet, and the result is the state after them.
\<close>

fun poller_loop :: "world \<Rightarrow> 'h cycle_env list \<Rightarrow> 'h poller_state \<Rightarrow> 'h poller_state" where
  "poller_loop w [] s = s"
| "poller_loop w (env # envs) s = poller_loop w envs (poll_cycle w env s)"


text \<open>
  Lines 214 to 222 alone: the dictionary \<^verbatim>\<open>updates\<close> a cycle builds, or the exception that
  ends its \<^verbatim>\<open>try\<close> body before the merge.
\<close>

definition cycle_updates :: "world \<Rightarrow> 'h cycle_env \<Rightarrow> exc + (pykey \<times> device) list" where
  "cycle_updates w env =
     exc_bind (fetch_topologies (ce_response env)) (\<lambda>payload.
     exc_bind (extract_nodes payload) (\<lambda>nodes.
     collect_updates w (ce_clock env) 0 nodes []))"

fun is_broadcast :: "'h event \<Rightarrow> bool" where
  "is_broadcast (EvBroadcast msg) = True"
| "is_broadcast ev = False"

definition broadcast_count :: "'h poller_state \<Rightarrow> nat" where
  "broadcast_count s = length (filter is_broadcast (trace s))"

fun is_fetch_or_sleep :: "'h event \<Rightarrow> bool" where
  "is_fetch_or_sleep (EvFetch t) = True"
| "is_fetch_or_sleep (EvSleep t) = True"
| "is_fetch_or_sleep ev = False"

text \<open>The events of one cycle: its fetch first, its sleep last, neither in between.\<close>

definition cycle_block :: "world \<Rightarrow> 'h event list \<Rightarrow> bool" where
  "cycle_block w b \<longleftrightarrow>
     (case b of
        [] \<Rightarrow> False
      | ev # rest \<Rightarrow> ev = EvFetch fetch_timeout \<and> rest \<noteq> []
          \<and> last rest = EvSleep (POLL_SECONDS w)
          \<and> filter is_fetch_or_sleep (butlast rest) = [])"

subsection \<open>The gateway beside the poller\<close>







subsection \<open>What the table is to hold\<close>










section \<open>Sample inputs\<close>

text \<open>
  A stand-in for the library's rendering, tabulated at the one timestamp the examples
  use: 1700000000000 ms after the epoch is 2023-11-14 22:13:20 UTC.
\<close>

fun sample_iso :: "json \<Rightarrow> exc + string" where
  "sample_iso (JInt n) =
     (if n = 1700000000000 then Inr ''2023-11-14T22:13:20+00:00''
      else Inl (Exc ValueError ''timestamp outside the table''))"
| "sample_iso v = Inl (Exc TypeError ''timestamp outside the table'')"

definition sample_world :: world where
  "sample_world = \<lparr> fromtimestamp_iso = sample_iso, env_POLL_SECONDS = None \<rparr>"

text \<open>Raw records \<^verbatim>\<open>{"host": {"device_sn": "A1", ...}}\<close>.\<close>

definition host_of_example :: "(string \<times> json) list \<Rightarrow> json" where
  "host_of_example extra = JDict [(''host'', JDict ((''device_sn'', JStr ''A1'') # extra))]"

definition nested_node :: json where
  "nested_node = host_of_example
     [(''device_state'', JDict [(''mode'', JInt 3),
         (''payload'', JDict [(''latitude'', JFloat 1.5), (''longitude'', JFloat 2.5),
                              (''height'', JInt 30), (''attitude_head'', JInt 90)])]),
      (''device_offline_position'', JDict [(''latitude'', JInt 9), (''longitude'', JInt 8),
                                           (''timestamp'', JInt 1700000000000)])]"


definition null_latitude_node :: json where
  "null_latitude_node = host_of_example
     [(''device_state'', JDict
         [(''payload'', JDict [(''latitude'', JNull), (''longitude'', JFloat 2)])])]"

definition offline_only_node :: json where
  "offline_only_node = host_of_example
     [(''device_state'', JDict [(''height'', JInt 50), (''attitude_head'', JInt 45)]),
      (''device_offline_position'', JDict [(''latitude'', JInt 9), (''longitude'', JInt 8)])]"

definition timestamped_node :: json where
  "timestamped_node = host_of_example
     [(''device_offline_position'', JDict [(''timestamp'', JInt 1700000000000)])]"

definition zero_timestamp_node :: json where
  "zero_timestamp_node = host_of_example
     [(''device_offline_position'', JDict [(''timestamp'', JInt 0)])]"

definition zero_heading_node :: json where
  "zero_heading_node = host_of_example
     [(''device_state'', JDict [(''latitude'', JFloat 1), (''longitude'', JFloat 2),
                                (''attitude_head'', JFloat 0), (''heading'', JInt 90)])]"

definition malformed_state_node :: json where
  "malformed_state_node = host_of_example [(''device_state'', JStr ''x'')]"

definition malformed_offline_node :: json where
  "malformed_offline_node = host_of_example [(''device_offline_position'', JStr ''unknown'')]"

text \<open>Cycles: handles are numbers, every send goes through unless said otherwise.\<close>

fun fixed_clock :: "nat \<Rightarrow> string" where
  "fixed_clock i = ''NOW''"

fun all_accept :: "nat \<Rightarrow> bool" where
  "all_accept ws = True"

fun second_fails :: "nat \<Rightarrow> bool" where
  "second_fails ws = (ws \<noteq> 2)"

definition ok_response :: "json \<Rightarrow> exc + http_response" where
  "ok_response body = Inr \<lparr> status_code = 200, status_error_text = [], json_result = Inr body \<rparr>"

definition cycle_with :: "exc + http_response \<Rightarrow> nat cycle_env" where
  "cycle_with got = \<lparr> ce_response = got, ce_clock = fixed_clock, ce_send_ok = all_accept \<rparr>"

definition timeout_cycle :: "nat cycle_env" where
  "timeout_cycle = cycle_with (Inl (Exc HTTPError ''timed out''))"

definition list_body_cycle :: "nat cycle_env" where
  "list_body_cycle = cycle_with (ok_response (JList []))"

definition empty_batch_cycle :: "nat cycle_env" where
  "empty_batch_cycle = cycle_with (ok_response (JDict [(''data'', JDict [(''list'', JList [])])]))"

definition batch :: "json list \<Rightarrow> nat cycle_env" where
  "batch nodes = cycle_with (ok_response (JDict [(''data'', JDict [(''list'', JList nodes)])]))"

definition one_subscriber :: "nat poller_state" where
  "one_subscriber = \<lparr> latest_by_sn = [], ws_clients = [1], trace = [] \<rparr>"

definition three_subscribers :: "nat poller_state" where
  "three_subscribers = \<lparr> latest_by_sn = [], ws_clients = [1, 2, 3], trace = [] \<rparr>"

section \<open>Properties of the normalizer\<close>

lemmas example_defs = host_of_example_def nested_node_def null_latitude_node_def offline_only_node_def
  sample_world_def

lemmas eval_defs = dict_get_def py_or_def carries_position_def base_of_def module_of_def
  ms_to_iso_def iso_or_now_def

lemma exc_bind_Inr [simp]: "exc_bind (Inr x) f = f x"
  by (simp add: exc_bind_def)

lemma exc_bind_Inl [simp]: "exc_bind (Inl e) f = Inl e"
  by (simp add: exc_bind_def)


lemma is_dict_conv: "is_dict v \<longleftrightarrow> (\<exists>kvs. v = JDict kvs)"
  by (cases v) auto

lemma find_carries_dict:
  "find carries_position vs = Some v \<Longrightarrow> \<exists>kvs. v = JDict kvs \<and> kvs \<noteq> []"
  by (auto simp: find_Some_iff carries_position_def is_dict_conv)

lemma module_of_dict: "\<exists>m. module_of (JDict ds) = Inr (JDict m)"
  by (auto simp: module_of_def py_or_def split: option.splits dest!: find_carries_dict)

lemma source_dict:
  assumes "module_of (JDict ds) = Inr m"
  shows "\<exists>src. py_or (base_of (JDict ds)) m = JDict src"
  using assms module_of_dict[of ds] by (auto simp: py_or_def base_of_def)

lemma normalize_node_shape:
  assumes "py_or (dict_get nkv ''host'') (JDict []) = JDict host"
    and "truthy (dict_get host ''device_sn'')"
    and "py_or (dict_get host ''device_state'') (JDict []) = JDict ds"
    and "module_of (JDict ds) = Inr m"
    and "py_or (base_of (JDict ds)) m = JDict src"
    and "py_or (dict_get host ''device_offline_position'') (JDict []) = JDict off"
    and "ms_to_iso w (dict_get off ''timestamp'') = Inr stamp"
  shows "normalize_node w now (JDict nkv) = Inr (Some
     \<lparr> sn = dict_get host ''device_sn'',
       nickname = py_or (dict_get host ''device_project_callsign'') (dict_get host ''device_sn''),
       online = truthy (dict_get host ''device_online_status''),
       lat = (if dict_get src ''latitude'' = JNull \<or> dict_get src ''longitude'' = JNull
              then dict_get off ''latitude'' else dict_get src ''latitude''),
       lng = (if dict_get src ''latitude'' = JNull \<or> dict_get src ''longitude'' = JNull
              then dict_get off ''longitude'' else dict_get src ''longitude''),
       alt_m = dict_get src ''height'',
       heading_deg = py_or (dict_get src ''attitude_head'') (dict_get src ''heading''),
       battery_pct = (case py_or (dict_get src ''battery'') (JDict []) of
                        JDict b \<Rightarrow> dict_get b ''capacity_percent'' | _ \<Rightarrow> JNull),
       flight_state = dict_get src ''mode_code'',
       updated_at = iso_or_now stamp now \<rparr>)"
proof -
  have heading: "(if truthy a then Inr a else Inr b) = (Inr (py_or a b) :: exc + json)" for a b
    by (simp add: py_or_def)
  have batt: "(if is_dict v then py_get v k else Inr JNull)
      = Inr (case v of JDict b \<Rightarrow> dict_get b k | _ \<Rightarrow> JNull)" for v k
    by (cases v) simp_all
  show ?thesis
  proof (cases "dict_get src ''latitude'' = JNull \<or> dict_get src ''longitude'' = JNull")
    case True
    with assms show ?thesis
      by (simp add: normalize_node_def Let_def heading batt
          split del: if_split cong: if_cong)
  next
    case False
    with assms show ?thesis
      by (simp add: normalize_node_def Let_def heading batt
          split del: if_split cong: if_cong)
  qed
qed


lemma module_of_unique:
  assumes "filter carries_position (map snd ds) = [v]"
  shows "module_of (JDict ds) = Inr v"
proof -
  from assms have "v \<in> set (filter carries_position (map snd ds))" by simp
  then have cv: "carries_position v" by simp
  have "find carries_position (map snd ds) = Some v"
    using assms by (induction ds) (auto split: if_splits)
  moreover from cv have "truthy v"
    by (cases v) (auto simp: carries_position_def)
  ultimately show ?thesis by (simp add: module_of_def py_or_def)
qed

lemma module_of_none:
  assumes "filter carries_position (map snd ds) = []"
  shows "module_of (JDict ds) = Inr (JDict [])"
proof -
  have "find carries_position (map snd ds) = None"
    using assms by (induction ds) (auto split: if_splits)
  then show ?thesis by (simp add: module_of_def py_or_def)
qed

lemma dict_get_Nil [simp]: "dict_get [] k = JNull"
  by (simp add: dict_get_def)

text \<open>
  C1 (as amended). Take a record whose device-state object does not have both keys
  \<^verbatim>\<open>latitude\<close> and \<^verbatim>\<open>longitude\<close>. If exactly one of its values is an object with both
  keys, \<^verbatim>\<open>normalize_node\<close> returns that object's coordinates when both are not null, and
  the offline position's coordinates when one of them is null; altitude and heading are
  read from that object in both cases. If no value is such an object,
  \<^verbatim>\<open>normalize_node\<close> returns the offline position's coordinates with altitude and heading
  null.
\<close>

theorem position_fallback:
  assumes "py_or (dict_get nkv ''host'') (JDict []) = JDict host"
    and "truthy (dict_get host ''device_sn'')"
    and "py_or (dict_get host ''device_state'') (JDict []) = JDict ds"
    and "py_or (dict_get host ''device_offline_position'') (JDict []) = JDict off"
    and "ms_to_iso w (dict_get off ''timestamp'') = Inr stamp"
    and "\<not> carries_position (JDict ds)"
  shows "(filter carries_position (map snd ds) = [JDict sub]
            \<and> dict_get sub ''latitude'' \<noteq> JNull \<and> dict_get sub ''longitude'' \<noteq> JNull
          \<longrightarrow> (\<exists>d. normalize_node w now (JDict nkv) = Inr (Some d)
                   \<and> lat d = dict_get sub ''latitude'' \<and> lng d = dict_get sub ''longitude''
                   \<and> alt_m d = dict_get sub ''height''
                   \<and> heading_deg d = py_or (dict_get sub ''attitude_head'') (dict_get sub ''heading'')))
       \<and> (filter carries_position (map snd ds) = [JDict sub]
            \<and> (dict_get sub ''latitude'' = JNull \<or> dict_get sub ''longitude'' = JNull)
          \<longrightarrow> (\<exists>d. normalize_node w now (JDict nkv) = Inr (Some d)
                   \<and> lat d = dict_get off ''latitude'' \<and> lng d = dict_get off ''longitude''
                   \<and> alt_m d = dict_get sub ''height''
                   \<and> heading_deg d = py_or (dict_get sub ''attitude_head'') (dict_get sub ''heading'')))
       \<and> (filter carries_position (map snd ds) = []
          \<longrightarrow> (\<exists>d. normalize_node w now (JDict nkv) = Inr (Some d)
                   \<and> lat d = dict_get off ''latitude'' \<and> lng d = dict_get off ''longitude''
                   \<and> alt_m d = JNull \<and> heading_deg d = JNull))"
proof (intro conjI impI)
  assume a: "filter carries_position (map snd ds) = [JDict sub]
     \<and> dict_get sub ''latitude'' \<noteq> JNull \<and> dict_get sub ''longitude'' \<noteq> JNull"
  then have m: "module_of (JDict ds) = Inr (JDict sub)" by (simp add: module_of_unique)
  have src: "py_or (base_of (JDict ds)) (JDict sub) = JDict sub"
    using assms(6) by (simp add: base_of_def py_or_def)
  show "\<exists>d. normalize_node w now (JDict nkv) = Inr (Some d)
      \<and> lat d = dict_get sub ''latitude'' \<and> lng d = dict_get sub ''longitude''
      \<and> alt_m d = dict_get sub ''height''
      \<and> heading_deg d = py_or (dict_get sub ''attitude_head'') (dict_get sub ''heading'')"
    using a by (simp add: normalize_node_shape[OF assms(1,2,3) m src assms(4,5)])
next
  assume a: "filter carries_position (map snd ds) = [JDict sub]
     \<and> (dict_get sub ''latitude'' = JNull \<or> dict_get sub ''longitude'' = JNull)"
  then have m: "module_of (JDict ds) = Inr (JDict sub)" by (simp add: module_of_unique)
  have src: "py_or (base_of (JDict ds)) (JDict sub) = JDict sub"
    using assms(6) by (simp add: base_of_def py_or_def)
  show "\<exists>d. normalize_node w now (JDict nkv) = Inr (Some d)
      \<and> lat d = dict_get off ''latitude'' \<and> lng d = dict_get off ''longitude''
      \<and> alt_m d = dict_get sub ''height''
      \<and> heading_deg d = py_or (dict_get sub ''attitude_head'') (dict_get sub ''heading'')"
    using a by (simp add: normalize_node_shape[OF assms(1,2,3) m src assms(4,5)])
next
  assume a: "filter carries_position (map snd ds) = []"
  then have m: "module_of (JDict ds) = Inr (JDict [])" by (simp add: module_of_none)
  have src: "py_or (base_of (JDict ds)) (JDict []) = JDict []"
    using assms(6) by (simp add: base_of_def py_or_def)
  show "\<exists>d. normalize_node w now (JDict nkv) = Inr (Some d)
      \<and> lat d = dict_get off ''latitude'' \<and> lng d = dict_get off ''longitude''
      \<and> alt_m d = JNull \<and> heading_deg d = JNull"
    by (simp add: normalize_node_shape[OF assms(1,2,3) m src assms(4,5)] py_or_def)
qed


theorem position_fallback_witness:
  "(\<exists>d. normalize_node sample_world ''NOW'' nested_node = Inr (Some d)
        \<and> lat d = JFloat 1.5 \<and> lng d = JFloat 2.5 \<and> alt_m d = JInt 30 \<and> heading_deg d = JInt 90)
   \<and> (\<exists>d. normalize_node sample_world ''NOW'' null_latitude_node = Inr (Some d)
        \<and> lat d = JNull \<and> lng d = JNull \<and> alt_m d = JNull \<and> heading_deg d = JNull)
   \<and> (\<exists>d. normalize_node sample_world ''NOW'' offline_only_node = Inr (Some d)
        \<and> lat d = JInt 9 \<and> lng d = JInt 8 \<and> alt_m d = JNull \<and> heading_deg d = JNull)"
proof -
  have 1: "\<exists>d. normalize_node sample_world ''NOW'' nested_node = Inr (Some d)
        \<and> lat d = JFloat 1.5 \<and> lng d = JFloat 2.5 \<and> alt_m d = JInt 30 \<and> heading_deg d = JInt 90"
    using position_fallback [of
        "[(''host'', JDict [(''device_sn'', JStr ''A1''),
           (''device_state'', JDict [(''mode'', JInt 3),
             (''payload'', JDict [(''latitude'', JFloat 1.5), (''longitude'', JFloat 2.5),
                              (''height'', JInt 30), (''attitude_head'', JInt 90)])]),
           (''device_offline_position'', JDict [(''latitude'', JInt 9), (''longitude'', JInt 8),
                                           (''timestamp'', JInt 1700000000000)])])]"
        "[(''device_sn'', JStr ''A1''),
           (''device_state'', JDict [(''mode'', JInt 3),
             (''payload'', JDict [(''latitude'', JFloat 1.5), (''longitude'', JFloat 2.5),
                              (''height'', JInt 30), (''attitude_head'', JInt 90)])]),
           (''device_offline_position'', JDict [(''latitude'', JInt 9), (''longitude'', JInt 8),
                                           (''timestamp'', JInt 1700000000000)])]"
        "[(''mode'', JInt 3),
             (''payload'', JDict [(''latitude'', JFloat 1.5), (''longitude'', JFloat 2.5),
                              (''height'', JInt 30), (''attitude_head'', JInt 90)])]"
        "[(''latitude'', JInt 9), (''longitude'', JInt 8), (''timestamp'', JInt 1700000000000)]"
        sample_world "Some ''2023-11-14T22:13:20+00:00''"
        "[(''latitude'', JFloat 1.5), (''longitude'', JFloat 2.5),
                              (''height'', JInt 30), (''attitude_head'', JInt 90)]" "''NOW''"]
    by (simp add: example_defs eval_defs)
  have 2: "\<exists>d. normalize_node sample_world ''NOW'' null_latitude_node = Inr (Some d)
        \<and> lat d = JNull \<and> lng d = JNull \<and> alt_m d = JNull \<and> heading_deg d = JNull"
    using position_fallback [of
        "[(''host'', JDict [(''device_sn'', JStr ''A1''),
           (''device_state'', JDict
              [(''payload'', JDict [(''latitude'', JNull), (''longitude'', JFloat 2)])])])]"
        "[(''device_sn'', JStr ''A1''),
           (''device_state'', JDict
              [(''payload'', JDict [(''latitude'', JNull), (''longitude'', JFloat 2)])])]"
        "[(''payload'', JDict [(''latitude'', JNull), (''longitude'', JFloat 2)])]"
        "[]" sample_world None
        "[(''latitude'', JNull), (''longitude'', JFloat 2)]" "''NOW''"]
    by (simp add: example_defs eval_defs)
  have 3: "\<exists>d. normalize_node sample_world ''NOW'' offline_only_node = Inr (Some d)
        \<and> lat d = JInt 9 \<and> lng d = JInt 8 \<and> alt_m d = JNull \<and> heading_deg d = JNull"
    using position_fallback [of
        "[(''host'', JDict [(''device_sn'', JStr ''A1''),
           (''device_state'', JDict [(''height'', JInt 50), (''attitude_head'', JInt 45)]),
           (''device_offline_position'', JDict [(''latitude'', JInt 9), (''longitude'', JInt 8)])])]"
        "[(''device_sn'', JStr ''A1''),
           (''device_state'', JDict [(''height'', JInt 50), (''attitude_head'', JInt 45)]),
           (''device_offline_position'', JDict [(''latitude'', JInt 9), (''longitude'', JInt 8)])]"
        "[(''height'', JInt 50), (''attitude_head'', JInt 45)]"
        "[(''latitude'', JInt 9), (''longitude'', JInt 8)]" sample_world None
        "[]" "''NOW''"]
    by (simp add: example_defs eval_defs)
  from 1 2 3 show ?thesis by blast
qed


text \<open>
  The claim as written fails where the one nested object has both keys and a null
  latitude: its longitude \<open>2.0\<close> is not returned.
\<close>

theorem position_fallback_counterexample:
  "\<not> carries_position (JDict [(''payload'', JDict [(''latitude'', JNull), (''longitude'', JFloat 2)])])
   \<and> filter carries_position
        (map snd [(''payload'', JDict [(''latitude'', JNull), (''longitude'', JFloat 2)])])
       = [JDict [(''latitude'', JNull), (''longitude'', JFloat 2)]]
   \<and> normalize_node sample_world ''NOW'' null_latitude_node = Inr (Some
       \<lparr> sn = JStr ''A1'', nickname = JStr ''A1'', online = False, lat = JNull, lng = JNull,
         alt_m = JNull, heading_deg = JNull, battery_pct = JNull, flight_state = JNull,
         updated_at = ''NOW'' \<rparr>)"
  by (simp add: example_defs eval_defs normalize_node_def Let_def)

text \<open>
  C8. When the offline-position timestamp is falsy (\<open>0\<close>, or absent and so \<^verbatim>\<open>None\<close>),
  \<^verbatim>\<open>normalize_node\<close> returns a record whose \<open>updated_at\<close> is the clock reading taken at
  normalization, whatever the library would render for the epoch; when it is a non-zero
  integer of epoch milliseconds that the library renders, \<open>updated_at\<close> is that rendering.
\<close>

theorem updated_at_rule:
  assumes "py_or (dict_get nkv ''host'') (JDict []) = JDict host"
    and "truthy (dict_get host ''device_sn'')"
    and "py_or (dict_get host ''device_state'') (JDict []) = JDict ds"
    and "py_or (dict_get host ''device_offline_position'') (JDict []) = JDict off"
  shows "(\<not> truthy (dict_get off ''timestamp'')
            \<longrightarrow> (\<exists>d. normalize_node w now (JDict nkv) = Inr (Some d) \<and> updated_at d = now))
       \<and> (dict_get off ''timestamp'' = JInt n \<and> n \<noteq> 0
            \<and> fromtimestamp_iso w (JInt n) = Inr s \<and> s \<noteq> []
            \<longrightarrow> (\<exists>d. normalize_node w now (JDict nkv) = Inr (Some d) \<and> updated_at d = s))"
proof -
  obtain m where m: "module_of (JDict ds) = Inr m"
    using module_of_dict by blast
  then obtain src where src: "py_or (base_of (JDict ds)) m = JDict src"
    using source_dict by blast
  note shape = normalize_node_shape [OF assms(1,2,3) m src assms(4)]
  show ?thesis
  proof (intro conjI impI)
    assume "\<not> truthy (dict_get off ''timestamp'')"
    then have "ms_to_iso w (dict_get off ''timestamp'') = Inr None"
      by (simp add: ms_to_iso_def)
    from shape [OF this]
    show "\<exists>d. normalize_node w now (JDict nkv) = Inr (Some d) \<and> updated_at d = now"
      by (simp add: iso_or_now_def)
  next
    assume "dict_get off ''timestamp'' = JInt n \<and> n \<noteq> 0
            \<and> fromtimestamp_iso w (JInt n) = Inr s \<and> s \<noteq> []"
    then have "ms_to_iso w (dict_get off ''timestamp'') = Inr (Some s)" and "s \<noteq> []"
      by (simp_all add: ms_to_iso_def)
    from shape [OF this(1)] this(2)
    show "\<exists>d. normalize_node w now (JDict nkv) = Inr (Some d) \<and> updated_at d = s"
      by (simp add: iso_or_now_def)
  qed
qed

theorem updated_at_rule_witness:
  "(\<exists>d. normalize_node sample_world ''NOW'' zero_timestamp_node = Inr (Some d)
        \<and> updated_at d = ''NOW'')
   \<and> (\<exists>d. normalize_node sample_world ''NOW'' timestamped_node = Inr (Some d)
        \<and> updated_at d = ''2023-11-14T22:13:20+00:00'')"
proof -
  have 1: "\<exists>d. normalize_node sample_world ''NOW'' zero_timestamp_node = Inr (Some d)
        \<and> updated_at d = ''NOW''"
    using updated_at_rule [of
        "[(''host'', JDict [(''device_sn'', JStr ''A1''),
            (''device_offline_position'', JDict [(''timestamp'', JInt 0)])])]"
        "[(''device_sn'', JStr ''A1''),
            (''device_offline_position'', JDict [(''timestamp'', JInt 0)])]"
        "[]" "[(''timestamp'', JInt 0)]" sample_world "''NOW''"]
    by (simp add: example_defs eval_defs zero_timestamp_node_def)
  have 2: "\<exists>d. normalize_node sample_world ''NOW'' timestamped_node = Inr (Some d)
        \<and> updated_at d = ''2023-11-14T22:13:20+00:00''"
    using updated_at_rule [of
        "[(''host'', JDict [(''device_sn'', JStr ''A1''),
            (''device_offline_position'', JDict [(''timestamp'', JInt 1700000000000)])])]"
        "[(''device_sn'', JStr ''A1''),
            (''device_offline_position'', JDict [(''timestamp'', JInt 1700000000000)])]"
        "[]" "[(''timestamp'', JInt 1700000000000)]" sample_world "''NOW''" 1700000000000
        "''2023-11-14T22:13:20+00:00''"]
    by (simp add: example_defs eval_defs timestamped_node_def)
  from 1 2 show ?thesis by blast
qed

text \<open>
  C10. When the object that supplies the position (\<^verbatim>\<open>base or module\<close>) has a falsy
  \<^verbatim>\<open>attitude_head\<close>, such as \<open>0\<close> or \<open>0.0\<close>, the record's \<open>heading_deg\<close> is what the
  object's \<^verbatim>\<open>heading\<close> key holds, or null without that key.
\<close>

theorem heading_falls_through:
  assumes "py_or (dict_get nkv ''host'') (JDict []) = JDict host"
    and "truthy (dict_get host ''device_sn'')"
    and "py_or (dict_get host ''device_state'') (JDict []) = JDict ds"
    and "module_of (JDict ds) = Inr m"
    and "py_or (base_of (JDict ds)) m = JDict src"
    and "py_or (dict_get host ''device_offline_position'') (JDict []) = JDict off"
    and "ms_to_iso w (dict_get off ''timestamp'') = Inr stamp"
    and "\<not> truthy (dict_get src ''attitude_head'')"
  shows "\<exists>d. normalize_node w now (JDict nkv) = Inr (Some d)
           \<and> heading_deg d = dict_get src ''heading''"
  using assms(8) by (simp add: normalize_node_shape [OF assms(1-7)] py_or_def)

theorem heading_falls_through_witness:
  "\<not> truthy (JFloat 0)
   \<and> (\<exists>d. normalize_node sample_world ''NOW'' zero_heading_node = Inr (Some d)
          \<and> heading_deg d = JInt 90)"
  using heading_falls_through [of
      "[(''host'', JDict [(''device_sn'', JStr ''A1''),
          (''device_state'', JDict [(''latitude'', JFloat 1), (''longitude'', JFloat 2),
                                    (''attitude_head'', JFloat 0), (''heading'', JInt 90)])])]"
      "[(''device_sn'', JStr ''A1''),
          (''device_state'', JDict [(''latitude'', JFloat 1), (''longitude'', JFloat 2),
                                    (''attitude_head'', JFloat 0), (''heading'', JInt 90)])]"
      "[(''latitude'', JFloat 1), (''longitude'', JFloat 2),
        (''attitude_head'', JFloat 0), (''heading'', JInt 90)]"
      "JDict []"
      "[(''latitude'', JFloat 1), (''longitude'', JFloat 2),
        (''attitude_head'', JFloat 0), (''heading'', JInt 90)]"
      "[]" sample_world None "''NOW''"]
  by (simp add: example_defs eval_defs zero_heading_node_def)

text \<open>
  C6. \<^verbatim>\<open>normalize_node\<close> is not total: a device state that is a non-empty string passes
  the \<^verbatim>\<open>isinstance\<close> test of line 145 as "no base" and then fails at \<^verbatim>\<open>ds.values()\<close>; an
  offline position that is a non-empty string fails at \<^verbatim>\<open>offline_pos.get\<close>. Both are
  \<^verbatim>\<open>AttributeError\<close>s, where the battery object is guarded by \<^verbatim>\<open>isinstance\<close>.
\<close>

theorem normalize_node_raises:
  "normalize_node w now malformed_state_node = Inl (no_attribute (JStr ''x'') ''values'')
   \<and> normalize_node w now malformed_offline_node = Inl (no_attribute (JStr ''unknown'') ''get'')"
  by (simp add: example_defs eval_defs malformed_state_node_def malformed_offline_node_def
      normalize_node_def Let_def)

section \<open>Properties of broadcast\<close>

lemma send_each_eq:
  "send_each ok data clients dead tr =
     (dead @ filter (\<lambda>ws. \<not> ok ws) clients, tr @ map (\<lambda>ws. EvSend ws data (ok ws)) clients)"
  by (induction clients arbitrary: dead tr) simp_all

lemma discard_each_eq: "discard_each dead clients = filter (\<lambda>ws. ws \<notin> set dead) clients"
proof (induction dead arbitrary: clients)
  case Nil
  show ?case by simp
next
  case (Cons ws dead)
  have "filter (\<lambda>x. x \<notin> set dead) (filter (\<lambda>x. ws \<noteq> x) clients)
      = filter (\<lambda>x. x \<noteq> ws \<and> x \<notin> set dead) clients"
    by (simp add: conj_commute neq_commute)
  then show ?case
    by (simp add: Cons.IH removeAll_filter_not_eq)
qed

lemma broadcast_eq:
  "broadcast ok msg s =
     s\<lparr> ws_clients := filter ok (ws_clients s),
        trace := trace s @ EvBroadcast msg # map (\<lambda>ws. EvSend ws msg (ok ws)) (ws_clients s) \<rparr>"
proof -
  have "filter (\<lambda>ws. ws \<notin> set (filter (\<lambda>ws. \<not> ok ws) cs)) cs = filter ok cs" for cs :: "'a list"
    by (rule filter_cong) auto
  then show ?thesis
    by (simp add: broadcast_def send_each_eq discard_each_eq)
qed

text \<open>
  C4. \<^verbatim>\<open>broadcast\<close> tries every registered handle once, in turn, whatever happened to the
  handles before it: a handle whose send goes through has received the message and stays
  registered, a handle whose send fails is not registered afterwards.
\<close>

theorem broadcast_isolation:
  "ws_clients (broadcast ok msg s) = filter ok (ws_clients s)
   \<and> trace (broadcast ok msg s)
       = trace s @ EvBroadcast msg # map (\<lambda>ws. EvSend ws msg (ok ws)) (ws_clients s)
   \<and> (\<forall>ws \<in> set (ws_clients s).
        (ok ws \<longrightarrow> EvSend ws msg True \<in> set (trace (broadcast ok msg s))
                  \<and> ws \<in> set (ws_clients (broadcast ok msg s)))
      \<and> (\<not> ok ws \<longrightarrow> EvSend ws msg False \<in> set (trace (broadcast ok msg s))
                  \<and> ws \<notin> set (ws_clients (broadcast ok msg s))))"
  by (auto simp: broadcast_eq)

theorem broadcast_isolation_witness:
  "ws_clients (broadcast second_fails (ErrorMessage ''down'') three_subscribers) = [1, 3]
   \<and> trace (broadcast second_fails (ErrorMessage ''down'') three_subscribers)
       = [EvBroadcast (ErrorMessage ''down''), EvSend 1 (ErrorMessage ''down'') True,
          EvSend 2 (ErrorMessage ''down'') False, EvSend 3 (ErrorMessage ''down'') True]"
  using broadcast_isolation [of second_fails "ErrorMessage ''down''" three_subscribers]
  by (simp add: three_subscribers_def)

section \<open>Properties of the poll cycle\<close>

lemma poll_try_eq:
  "poll_try w env s =
     (case cycle_updates w env of
        Inl e \<Rightarrow> (Some e, s\<lparr> trace := trace s @ [EvFetch fetch_timeout] \<rparr>)
      | Inr u \<Rightarrow>
          (None,
           if u \<noteq> []
           then broadcast (ce_send_ok env) (TelemetryUpdate (map snd u))
                  (s\<lparr> trace := trace s @ [EvFetch fetch_timeout],
                      latest_by_sn := dict_update (latest_by_sn s) u \<rparr>)
           else s\<lparr> trace := trace s @ [EvFetch fetch_timeout],
                   latest_by_sn := dict_update (latest_by_sn s) u \<rparr>))"
  by (simp add: poll_try_def cycle_updates_def exc_bind_def Let_def split: sum.splits)

lemma poll_cycle_failed:
  assumes "cycle_updates w env = Inl e"
  shows "poll_cycle w env s =
     s\<lparr> ws_clients := filter (ce_send_ok env) (ws_clients s),
        trace := trace s @ [EvFetch fetch_timeout, EvBroadcast (error_report e)]
                 @ map (\<lambda>ws. EvSend ws (error_report e) (ce_send_ok env ws)) (ws_clients s)
                 @ [EvSleep (POLL_SECONDS w)] \<rparr>"
  by (simp add: poll_cycle_def poll_try_eq assms broadcast_eq sleep_def)

lemma poll_cycle_empty:
  assumes "cycle_updates w env = Inr []"
  shows "poll_cycle w env s =
     s\<lparr> trace := trace s @ [EvFetch fetch_timeout, EvSleep (POLL_SECONDS w)] \<rparr>"
  by (simp add: poll_cycle_def poll_try_eq assms sleep_def dict_update_def)

lemma poll_cycle_merged:
  assumes "cycle_updates w env = Inr u" and "u \<noteq> []"
  shows "poll_cycle w env s =
     s\<lparr> latest_by_sn := dict_update (latest_by_sn s) u,
        ws_clients := filter (ce_send_ok env) (ws_clients s),
        trace := trace s @ [EvFetch fetch_timeout, EvBroadcast (TelemetryUpdate (map snd u))]
                 @ map (\<lambda>ws. EvSend ws (TelemetryUpdate (map snd u)) (ce_send_ok env ws))
                     (ws_clients s)
                 @ [EvSleep (POLL_SECONDS w)] \<rparr>"
  by (simp add: poll_cycle_def poll_try_eq assms broadcast_eq sleep_def)

lemma fetch_failure_classes:
  assumes "got = Inl e
     \<or> (\<exists>r. got = Inr r \<and> \<not> (200 \<le> status_code r \<and> status_code r < 300)
            \<and> e = Exc HTTPError (status_error_text r))
     \<or> (\<exists>r. got = Inr r \<and> 200 \<le> status_code r \<and> status_code r < 300
            \<and> json_result r = Inl e)"
  shows "fetch_topologies got = Inl e"
  using assms by (auto simp: fetch_topologies_def raise_for_status_def)

text \<open>
  C2. When the fetch fails (the request raises, the status is not 2xx, or the body does
  not parse), the cycle broadcasts one error message, sent to every registered handle,
  leaves \<open>latest_by_sn\<close> as it was, sleeps, and the loop goes on with the next cycle.
\<close>

theorem fetch_failure_cycle:
  assumes "ce_response env = Inl e
     \<or> (\<exists>r. ce_response env = Inr r \<and> \<not> (200 \<le> status_code r \<and> status_code r < 300)
            \<and> e = Exc HTTPError (status_error_text r))
     \<or> (\<exists>r. ce_response env = Inr r \<and> 200 \<le> status_code r \<and> status_code r < 300
            \<and> json_result r = Inl e)"
  shows "latest_by_sn (poll_cycle w env s) = latest_by_sn s
     \<and> (\<exists>text. error_report e = ErrorMessage text)
     \<and> trace (poll_cycle w env s)
         = trace s @ [EvFetch fetch_timeout, EvBroadcast (error_report e)]
           @ map (\<lambda>ws. EvSend ws (error_report e) (ce_send_ok env ws)) (ws_clients s)
           @ [EvSleep (POLL_SECONDS w)]
     \<and> poller_loop w (env # envs) s = poller_loop w envs (poll_cycle w env s)"
proof -
  from assms have "fetch_topologies (ce_response env) = Inl e"
    by (rule fetch_failure_classes)
  then have "cycle_updates w env = Inl e"
    by (simp add: cycle_updates_def)
  then show ?thesis
    by (simp add: poll_cycle_failed error_report_def)
qed

theorem fetch_failure_cycle_witness:
  "latest_by_sn (poll_cycle sample_world timeout_cycle one_subscriber) = []
   \<and> trace (poll_cycle sample_world timeout_cycle one_subscriber)
       = [EvFetch 10, EvBroadcast (ErrorMessage ''HTTP error: timed out''),
          EvSend 1 (ErrorMessage ''HTTP error: timed out'') True, EvSleep 2]"
  using fetch_failure_cycle [of timeout_cycle "Exc HTTPError ''timed out''" sample_world
      one_subscriber "[]"]
  by (simp add: timeout_cycle_def cycle_with_def one_subscriber_def error_report_def
      fetch_timeout_def POLL_SECONDS_def sample_world_def)

text \<open>
  C9. A cycle whose update set is empty leaves \<open>latest_by_sn\<close> as it was (merging the
  empty set changes nothing), calls \<^verbatim>\<open>broadcast\<close> not at all and sends nothing: its only
  events are the fetch and the sleep.
\<close>

theorem empty_update_cycle:
  assumes "cycle_updates w env = Inr []"
  shows "dict_update (latest_by_sn s) [] = latest_by_sn s
     \<and> latest_by_sn (poll_cycle w env s) = latest_by_sn s
     \<and> ws_clients (poll_cycle w env s) = ws_clients s
     \<and> trace (poll_cycle w env s) = trace s @ [EvFetch fetch_timeout, EvSleep (POLL_SECONDS w)]
     \<and> broadcast_count (poll_cycle w env s) = broadcast_count s"
  by (simp add: poll_cycle_empty [OF assms] dict_update_def broadcast_count_def)

theorem empty_update_cycle_witness:
  "cycle_updates sample_world empty_batch_cycle = Inr []
   \<and> latest_by_sn (poll_cycle sample_world empty_batch_cycle one_subscriber) = []
   \<and> trace (poll_cycle sample_world empty_batch_cycle one_subscriber) = [EvFetch 10, EvSleep 2]
   \<and> broadcast_count (poll_cycle sample_world empty_batch_cycle one_subscriber) = 0"
proof -
  have u: "cycle_updates sample_world empty_batch_cycle = Inr []"
    by (simp add: cycle_updates_def empty_batch_cycle_def cycle_with_def ok_response_def
        fetch_topologies_def raise_for_status_def extract_nodes_def py_or_def dict_get_def)
  have p: "POLL_SECONDS sample_world = 2"
    by (simp add: POLL_SECONDS_def sample_world_def)
  show ?thesis
    using empty_update_cycle [OF u, of one_subscriber]
    by (simp add: u p one_subscriber_def fetch_timeout_def broadcast_count_def)
qed

lemma POLL_SECONDS_sample: "POLL_SECONDS sample_world = 2"
  by (simp add: POLL_SECONDS_def sample_world_def)

lemma poll_cycle_block: "\<exists>b. trace (poll_cycle w env s) = trace s @ b \<and> cycle_block w b"
proof -
  have sends: "filter is_fetch_or_sleep (map (\<lambda>ws. EvSend ws msg (ok ws)) cs) = []"
    for msg :: message and ok :: "'a \<Rightarrow> bool" and cs
    by (induction cs) simp_all
  show ?thesis
  proof (cases "cycle_updates w env")
    case (Inl e)
    show ?thesis
      by (simp add: poll_cycle_failed [OF Inl] cycle_block_def butlast_append sends)
  next
    case (Inr u)
    show ?thesis
    proof (cases "u = []")
      case True
      with Inr show ?thesis
        by (simp add: poll_cycle_empty cycle_block_def)
    next
      case False
      with Inr show ?thesis
        by (simp add: poll_cycle_merged cycle_block_def butlast_append sends)
    qed
  qed
qed

lemma poller_loop_blocks:
  "\<exists>blocks. trace (poller_loop w envs s) = trace s @ concat blocks
      \<and> length blocks = length envs \<and> list_all (cycle_block w) blocks"
proof (induction envs arbitrary: s)
  case Nil
  show ?case by simp
next
  case (Cons env envs)
  obtain b where b: "trace (poll_cycle w env s) = trace s @ b" "cycle_block w b"
    using poll_cycle_block by blast
  obtain blocks where blocks:
    "trace (poller_loop w envs (poll_cycle w env s)) = trace (poll_cycle w env s) @ concat blocks"
    "length blocks = length envs" "list_all (cycle_block w) blocks"
    using Cons.IH by blast
  have "trace (poller_loop w (env # envs) s) = trace s @ concat (b # blocks)"
    using b blocks by simp
  moreover have "length (b # blocks) = length (env # envs)"
    using blocks by simp
  moreover have "list_all (cycle_block w) (b # blocks)"
    using b blocks by simp
  ultimately show ?case by blast
qed

text \<open>
  C5 (as amended). Every fetch is called with the timeout argument 10.0; how long a call
  takes is not part of this model. That value is below the poll interval exactly when
  \<^verbatim>\<open>POLL_SECONDS\<close> is set to more than 10. Cycles do not overlap because the loop is
  sequential: the events of a run are the cycles' blocks one after the other, each from
  its fetch to its sleep with no other fetch or sleep inside.
\<close>

theorem fetch_timeout_and_interval:
  "(fetch_timeout < POLL_SECONDS w \<longleftrightarrow> (\<exists>v. env_POLL_SECONDS w = Some v \<and> 10 < v))
   \<and> (\<exists>blocks. trace (poller_loop w envs s) = trace s @ concat blocks
         \<and> length blocks = length envs \<and> list_all (cycle_block w) blocks)"
  using poller_loop_blocks [of w envs s]
  by (auto simp: fetch_timeout_def POLL_SECONDS_def split: option.splits)

theorem fetch_timeout_and_interval_witness:
  "\<not> fetch_timeout < POLL_SECONDS sample_world
   \<and> (\<exists>blocks. trace (poller_loop sample_world [timeout_cycle, empty_batch_cycle] one_subscriber)
                 = concat blocks
         \<and> length blocks = 2 \<and> list_all (cycle_block sample_world) blocks)"
  using fetch_timeout_and_interval [of sample_world "[timeout_cycle, empty_batch_cycle]"
      one_subscriber]
  by (simp add: sample_world_def one_subscriber_def numeral_2_eq_2)

text \<open>With the default configuration the timeout argument is the larger of the two.\<close>

theorem fetch_timeout_and_interval_counterexample:
  "env_POLL_SECONDS sample_world = None \<and> \<not> fetch_timeout < POLL_SECONDS sample_world"
  by (simp add: fetch_timeout_def POLL_SECONDS_def sample_world_def)

text \<open>
  C7 (as amended). An exception in a cycle that is no \<^verbatim>\<open>httpx.HTTPError\<close> is caught by
  the second handler: the cycle broadcasts an error message with the prefix
  \<^verbatim>\<open>Unexpected error: \<close>, leaves \<open>latest_by_sn\<close> as it was, sleeps, and the loop goes on,
  as after an upstream failure.
\<close>

theorem unexpected_failure_cycle:
  assumes "cycle_updates w env = Inl e" and "\<not> is_http_error e"
  shows "poll_cycle w env s =
       s\<lparr> ws_clients := filter (ce_send_ok env) (ws_clients s),
          trace := trace s
            @ [EvFetch fetch_timeout, EvBroadcast (ErrorMessage (''Unexpected error: '' @ exc_str e))]
            @ map (\<lambda>ws. EvSend ws (ErrorMessage (''Unexpected error: '' @ exc_str e))
                          (ce_send_ok env ws)) (ws_clients s)
            @ [EvSleep (POLL_SECONDS w)] \<rparr>
     \<and> latest_by_sn (poll_cycle w env s) = latest_by_sn s
     \<and> poller_loop w (env # envs) s = poller_loop w envs (poll_cycle w env s)"
  using assms(2) by (simp add: poll_cycle_failed [OF assms(1)] error_report_def)

lemma malformed_state_cycle:
  "cycle_updates sample_world (batch [malformed_state_node])
     = Inl (no_attribute (JStr ''x'') ''values'')"
  by (simp add: cycle_updates_def batch_def cycle_with_def ok_response_def
      fetch_topologies_def raise_for_status_def extract_nodes_def py_or_def dict_get_def
      malformed_state_node_def host_of_example_def normalize_node_def base_of_def
      carries_position_def module_of_def Let_def)

theorem unexpected_failure_cycle_witness:
  "\<not> is_http_error (no_attribute (JStr ''x'') ''values'')
   \<and> trace (poll_cycle sample_world (batch [malformed_state_node]) one_subscriber)
       = [EvFetch 10,
          EvBroadcast (ErrorMessage (''Unexpected error: '' @ quoted ''str''
                          @ '' object has no attribute '' @ quoted ''values'')),
          EvSend 1 (ErrorMessage (''Unexpected error: '' @ quoted ''str''
                          @ '' object has no attribute '' @ quoted ''values'')) True,
          EvSleep 2]"
  using unexpected_failure_cycle [OF malformed_state_cycle, of one_subscriber "[]"]
  by (simp add: no_attribute_def POLL_SECONDS_sample fetch_timeout_def one_subscriber_def
      batch_def cycle_with_def)

text \<open>
  The claim as written fails: the cycle that meets the \<^verbatim>\<open>AttributeError\<close> ends like
  one that meets a timeout, and the next cycle runs.
\<close>

theorem unexpected_failure_cycle_counterexample:
  "poller_loop sample_world [batch [malformed_state_node], timeout_cycle] one_subscriber
     = \<lparr> latest_by_sn = [], ws_clients = [1],
         trace = [EvFetch 10,
                  EvBroadcast (ErrorMessage (''Unexpected error: '' @ quoted ''str''
                                  @ '' object has no attribute '' @ quoted ''values'')),
                  EvSend 1 (ErrorMessage (''Unexpected error: '' @ quoted ''str''
                                  @ '' object has no attribute '' @ quoted ''values'')) True,
                  EvSleep 2,
                  EvFetch 10,
                  EvBroadcast (ErrorMessage ''HTTP error: timed out''),
                  EvSend 1 (ErrorMessage ''HTTP error: timed out'') True,
                  EvSleep 2] \<rparr>"
proof -
  have t: "cycle_updates sample_world timeout_cycle = Inl (Exc HTTPError ''timed out'')"
    by (simp add: cycle_updates_def timeout_cycle_def cycle_with_def fetch_topologies_def)
  have s1: "ce_send_ok (batch [malformed_state_node]) = all_accept"
    by (simp add: batch_def cycle_with_def)
  have s2: "ce_send_ok timeout_cycle = all_accept"
    by (simp add: timeout_cycle_def cycle_with_def)
  show ?thesis
    by (simp add: poll_cycle_failed [OF malformed_state_cycle] poll_cycle_failed [OF t] s1 s2
        error_report_def no_attribute_def POLL_SECONDS_sample fetch_timeout_def
        one_subscriber_def)
qed

section \<open>Properties of the state table\<close>





























end
